theory Spec2Isabelle
  imports Main "HOL-Library.Word" "HOL-Library.Char_ord" "HOL-Library.List_Lexorder"
begin

section \<open>Panics and errors\<close>

text \<open>
  A Go function either returns or panics. A panic is the left summand of the result;
  an ordinary \<open>error\<close> return value is data of the right summand.
\<close>

datatype panic =
    NilPointerDereference
  | TypeAssertionFailed
  | CloseOfClosedChannel

section \<open>Routes (Ingress objects)\<close>

text \<open>
  The fields of \<open>networking/v1beta1.Ingress\<close> that the store reads. A pointer field
  is an \<open>option\<close> (\<open>None\<close> is \<open>nil\<close>); the annotation map is a partial map.
\<close>

datatype PathType = PathTypeExact | PathTypePrefix | PathTypeImplementationSpecific

record HTTPIngressPath =
  Path :: string
  PathType :: "PathType option"
  Backend :: string

record IngressRule =
  Host :: string
  HTTP :: "HTTPIngressPath list option"

record IngressTLS =
  Hosts :: "string list"
  SecretName :: string

record IngressSpec =
  SpecIngressClassName :: "string option"
  TLS :: "IngressTLS list"
  Rules :: "IngressRule list"

record Ingress =
  Name :: string
  Namespace :: string
  ResourceVersion :: string
  Annotations :: "string \<rightharpoonup> string"
  Spec :: IngressSpec

subsection \<open>The class filter (unnamed/part\_004, \<open>IsValid\<close>)\<close>

definition IngressKey :: string where
  "IngressKey = ''kubernetes.io/ingress.class''"

text \<open>
  The package variables \<open>DefaultClassName\<close>, \<open>IngressClassName\<close>,
  \<open>IsIngressV1Ready\<close> and \<open>IngressClass\<close>, read by \<open>IsValid\<close>, as one record.
  \<open>IngressClass\<close> is a pointer to an object of which only \<open>Name\<close> is read.
\<close>

record ClassConfig =
  DefaultClassName :: string
  IngressClassName :: string
  IsIngressV1Ready :: bool
  IngressClass :: "string option"

text \<open>The values the package variables are initialised with.\<close>

definition initClassConfig :: ClassConfig where
  "initClassConfig =
     \<lparr>DefaultClassName = ''bfe'', IngressClassName = ''bfe'',
      IsIngressV1Ready = False, IngressClass = None\<rparr>"

text \<open>
  \<open>IsValid\<close>, branch by branch. The last branch dereferences
  \<open>ing.Spec.IngressClassName\<close> without a nil check.
\<close>

definition IsValid :: "ClassConfig \<Rightarrow> Ingress \<Rightarrow> panic + bool" where
  "IsValid g ing =
     (case Annotations ing IngressKey of
        Some ingress \<Rightarrow>
          if ingress = [] \<and> IngressClassName g = DefaultClassName g then Inr True
          else Inr (ingress = IngressClassName g)
      | None \<Rightarrow>
          if \<not> IsIngressV1Ready g then Inr (IngressClassName g = DefaultClassName g)
          else (case IngressClass g of
                  None \<Rightarrow> Inr (IngressClassName g = DefaultClassName g)
                | Some icName \<Rightarrow>
                    (case SpecIngressClassName (Spec ing) of
                       None \<Rightarrow> Inl NilPointerDereference
                     | Some n \<Rightarrow> Inr (icName = n))))"

text \<open>An Ingress with nothing set, and one carrying a class annotation.\<close>

definition emptyIngress :: Ingress where
  "emptyIngress =
     \<lparr>Name = ''web'', Namespace = ''default'', ResourceVersion = ''1'',
      Annotations = Map.empty,
      Spec = \<lparr>SpecIngressClassName = None, TLS = [], Rules = []\<rparr>\<rparr>"

definition withClass :: "string \<Rightarrow> Ingress \<Rightarrow> Ingress" where
  "withClass a ing = ing\<lparr>Annotations := (Annotations ing)(IngressKey \<mapsto> a)\<rparr>"

subsection \<open>Path-type defaulting (unnamed/part\_004, \<open>SetDefaultNGINXPathType\<close>)\<close>

definition defaultPathType :: "HTTPIngressPath \<Rightarrow> HTTPIngressPath" where
  "defaultPathType p =
     (let p1 = (if PathType p = None then p\<lparr>PathType := Some PathTypePrefix\<rparr> else p)
      in if PathType p1 = Some PathTypeImplementationSpecific
         then p1\<lparr>PathType := Some PathTypePrefix\<rparr> else p1)"

definition SetDefaultNGINXPathType :: "Ingress \<Rightarrow> Ingress" where
  "SetDefaultNGINXPathType ing =
     ing\<lparr>Spec := (Spec ing)\<lparr>Rules :=
        map (\<lambda>rule. case HTTP rule of
                      None \<Rightarrow> rule
                    | Some paths \<Rightarrow> rule\<lparr>HTTP := Some (map defaultPathType paths)\<rparr>)
            (Rules (Spec ing))\<rparr>\<rparr>"

section \<open>The reference index\<close>

text \<open>
  Modelled from the spec: the type \<open>ObjectRefMap\<close> and its operations
  \<open>NewObjectRefMap\<close>, \<open>Insert\<close>, \<open>Delete\<close>, \<open>Reference\<close> and \<open>ReferencedBy\<close> are
  used by store.go and the handlers, but their file is not among the sources. The spec:
  an entry is \<open>owner \<rightarrow> {targetKey}\<close> with the derived inverse \<open>target \<rightarrow> {ownerKey}\<close>;
  \<open>Insert(owner, targets...)\<close> replaces the owner's entire target set;
  \<open>Delete(owner)\<close> removes the owner and all its forward and inverse entries;
  \<open>Reference(target)\<close> gives the owners, \<open>ReferencedBy(owner)\<close> the targets; absent
  keys give empty sets. The callers range over the results and take their \<open>len\<close>, so a
  set is a list without duplicates here; an absent key is the empty list.
\<close>

record ObjectRefMap =
  forward :: "string \<Rightarrow> string list"
  inverse :: "string \<Rightarrow> string list"

definition NewObjectRefMap :: ObjectRefMap where
  "NewObjectRefMap = \<lparr>forward = (\<lambda>_. []), inverse = (\<lambda>_. [])\<rparr>"

definition Delete :: "string \<Rightarrow> ObjectRefMap \<Rightarrow> ObjectRefMap" where
  "Delete owner m =
     \<lparr>forward = (forward m)(owner := []),
      inverse = (\<lambda>t. removeAll owner (inverse m t))\<rparr>"

definition Insert :: "string \<Rightarrow> string list \<Rightarrow> ObjectRefMap \<Rightarrow> ObjectRefMap" where
  "Insert owner targets m =
     (let m' = Delete owner m
      in \<lparr>forward = (forward m')(owner := remdups targets),
          inverse = (\<lambda>t. if t \<in> set targets then inverse m' t @ [owner] else inverse m' t)\<rparr>)"

definition Reference :: "ObjectRefMap \<Rightarrow> string \<Rightarrow> string list" where
  "Reference m target = inverse m target"

definition ReferencedBy :: "ObjectRefMap \<Rightarrow> string \<Rightarrow> string list" where
  "ReferencedBy m owner = forward m owner"

text \<open>The invariant of the spec: the inverse is the transpose of the forward map.\<close>

definition transposed :: "ObjectRefMap \<Rightarrow> bool" where
  "transposed m = (\<forall>owner target.
      owner \<in> set (inverse m target) \<longleftrightarrow> target \<in> set (forward m owner))"

section \<open>The watch store's route handling\<close>

text \<open>
  The values that travel as \<open>interface{}\<close> through the informers' stores and
  handlers: an Ingress of the networking group, one of the extensions group (same
  fields), the tombstone \<open>cache.DeletedFinalStateUnknown\<close> (key and object), and the
  objects of the core group, of which only the metadata is kept here.
\<close>

record ObjectMeta =
  MetaName :: string
  MetaNamespace :: string

datatype Object =
    NetworkingIngress Ingress
  | ExtensionsIngress Ingress
  | DeletedFinalStateUnknown string Object
  | SecretObject ObjectMeta
  | ServiceObject ObjectMeta
  | EndpointsObject ObjectMeta
  | ConfigMapObject ObjectMeta

datatype EventType = CreateEvent | UpdateEvent | DeleteEvent | ConfigurationEvent

record Event =
  Type :: EventType
  Obj :: Object

text \<open>
  What the handler does to the outside, in program order: an audit event through the
  recorder (\<open>Eventf\<close>: object, event type, reason, message), an invocation of
  \<open>syncSecret\<close>, a send on \<open>updateCh.In()\<close>.
\<close>

datatype Effect =
    Eventf Ingress string string string
  | SyncSecret string
  | Send Event

subsection \<open>Informers, listers and \<open>NewStore\<close> (store.go, unnamed/part\_003, secret.go)\<close>

text \<open>
  The shared informer factory of client-go hands out one informer per resource; the
  informer lists and watches that resource's collection, and its store
  (\<open>GetStore\<close>) mirrors the collection by key \<open>namespace/name\<close>. The API server's
  collections are the parameter \<open>api\<close>; a store is read against them.
\<close>

datatype Resource =
    NetworkingV1beta1Ingresses
  | CoreV1Endpoints
  | CoreV1Secrets
  | CoreV1Services
  | CoreV1ConfigMaps

type_synonym ApiState = "Resource \<Rightarrow> string \<rightharpoonup> Object"

datatype SharedIndexInformer = Informer Resource

datatype Store = GetStore SharedIndexInformer

fun GetByKey :: "ApiState \<Rightarrow> Store \<Rightarrow> string \<Rightarrow> Object option" where
  "GetByKey api (GetStore (Informer r)) key = api r key"

text \<open>The struct \<open>Informer\<close>, and \<open>Lister\<close> with the store each lister embeds.\<close>

record Informer =
  Ingress :: SharedIndexInformer
  Endpoint :: SharedIndexInformer
  Service :: SharedIndexInformer
  Secret :: SharedIndexInformer
  ConfigMap :: SharedIndexInformer

record Lister =
  IngressLister :: Store
  ServiceLister :: Store
  EndpointLister :: Store
  SecretLister :: Store
  ConfigMapLister :: Store

text \<open>\<open>errors.NewNotFound\<close>: the group resource and the key.\<close>

datatype StatusError = NotFound string string

text \<open>
  \<open>ServiceLister.ByKey\<close> and \<open>SecretLister.ByKey\<close>. The store's \<open>GetByKey\<close>
  returns no error; the type assertion on the item panics on an object of another type.
\<close>

definition ServiceLister_ByKey ::
  "ApiState \<Rightarrow> Store \<Rightarrow> string \<Rightarrow> panic + (StatusError + ObjectMeta)" where
  "ServiceLister_ByKey api sl key =
     (case GetByKey api sl key of
        None \<Rightarrow> Inr (Inl (NotFound ''core.service'' key))
      | Some item \<Rightarrow>
          (case item of
             ServiceObject svc \<Rightarrow> Inr (Inr svc)
           | _ \<Rightarrow> Inl TypeAssertionFailed))"

definition SecretLister_ByKey ::
  "ApiState \<Rightarrow> Store \<Rightarrow> string \<Rightarrow> panic + (StatusError + ObjectMeta)" where
  "SecretLister_ByKey api il key =
     (case GetByKey api il key of
        None \<Rightarrow> Inr (Inl (NotFound ''core.secret'' key))
      | Some item \<Rightarrow>
          (case item of
             SecretObject sec \<Rightarrow> Inr (Inr sec)
           | _ \<Rightarrow> Inl TypeAssertionFailed))"

text \<open>
  \<open>K8sStore\<close>: the informers, the listers and \<open>secretIngressMap\<close>. The recorder, the
  update channel and, through \<open>syncSecret\<close>, the certificate store are written to
  only; what is written is the trace of effects, in program order.
\<close>

record K8sStore =
  informers :: Informer
  listers :: Lister
  secretIngressMap :: ObjectRefMap
  trace :: "Effect list"

text \<open>
  \<open>NewStore\<close>: each informer as the factory call in store.go creates it, each
  lister's store the store of the informer of the same field. The Service informer is
  created by \<open>informerFactory.Core().V1().Secrets().Informer()\<close>.
\<close>

definition NewStore :: K8sStore where
  "NewStore =
     (let inf = \<lparr>Ingress = Informer NetworkingV1beta1Ingresses,
                  Endpoint = Informer CoreV1Endpoints,
                  Service = Informer CoreV1Secrets,
                  Secret = Informer CoreV1Secrets,
                  ConfigMap = Informer CoreV1ConfigMaps\<rparr>
      in \<lparr>informers = inf,
          listers = \<lparr>IngressLister = GetStore (Ingress inf),
                     ServiceLister = GetStore (Service inf),
                     EndpointLister = GetStore (Endpoint inf),
                     SecretLister = GetStore (Secret inf),
                     ConfigMapLister = GetStore (ConfigMap inf)\<rparr>,
          secretIngressMap = NewObjectRefMap,
          trace = []\<rparr>)"

definition GetSecret ::
  "ApiState \<Rightarrow> K8sStore \<Rightarrow> string \<Rightarrow> panic + (StatusError + ObjectMeta)" where
  "GetSecret api s key = SecretLister_ByKey api (SecretLister (listers s)) key"

definition GetService ::
  "ApiState \<Rightarrow> K8sStore \<Rightarrow> string \<Rightarrow> panic + (StatusError + ObjectMeta)" where
  "GetService api s key = ServiceLister_ByKey api (ServiceLister (listers s)) key"

text \<open>A cluster with one Service and one Secret.\<close>

definition exampleApi :: ApiState where
  "exampleApi =
     (\<lambda>r. Map.empty)
       (CoreV1Services :=
          [''default/web'' \<mapsto> ServiceObject \<lparr>MetaName = ''web'', MetaNamespace = ''default''\<rparr>],
        CoreV1Secrets :=
          [''default/tls'' \<mapsto> SecretObject \<lparr>MetaName = ''tls'', MetaNamespace = ''default''\<rparr>])"

subsection \<open>The Ingress handler (unnamed/part\_004, store.go)\<close>

text \<open>
  Calls to \<open>klog\<close> write a log line and change nothing else; they are left out, and
  with them \<open>GetStringAnnotation\<close>, whose result \<open>OnAdd\<close> only logs.
\<close>

definition emit :: "Effect \<Rightarrow> K8sStore \<Rightarrow> K8sStore" where
  "emit e s = s\<lparr>trace := trace s @ [e]\<rparr>"

text \<open>
  \<open>cache.DeletionHandlingMetaNamespaceKeyFunc\<close> on an Ingress: \<open>namespace/name\<close>,
  or the name alone when the namespace is empty; it returns no error on such an object.
\<close>

definition MetaNamespaceKey :: "Ingress \<Rightarrow> string" where
  "MetaNamespaceKey ing =
     (if Namespace ing \<noteq> [] then Namespace ing @ ''/'' @ Name ing else Name ing)"

text \<open>store.go, \<open>updateSecretIngressMap\<close>: the loop that collects \<open>refSecrets\<close>.\<close>

definition refSecrets :: "Ingress \<Rightarrow> string list" where
  "refSecrets ing =
     map (\<lambda>tls. Namespace ing @ ''/'' @ SecretName tls)
         (filter (\<lambda>tls. SecretName tls \<noteq> []) (TLS (Spec ing)))"

definition updateSecretIngressMap :: "Ingress \<Rightarrow> K8sStore \<Rightarrow> K8sStore" where
  "updateSecretIngressMap ing s =
     (let key = MetaNamespaceKey ing;
          m1 = Delete key (secretIngressMap s)
      in s\<lparr>secretIngressMap := Insert key (refSecrets ing) m1\<rparr>)"

text \<open>
  Modelled from the spec: the body of \<open>K8sStore.syncSecret\<close> is not among the sources
  (the spec: "trigger certificate resync"). Its invocation is recorded in the trace.
\<close>

definition syncSecret :: "string \<Rightarrow> K8sStore \<Rightarrow> K8sStore" where
  "syncSecret secrKey s = emit (SyncSecret secrKey) s"

definition syncSecrets :: "Ingress \<Rightarrow> K8sStore \<Rightarrow> K8sStore" where
  "syncSecrets ing s =
     foldl (\<lambda>s' secrKey. syncSecret secrKey s') s
           (ReferencedBy (secretIngressMap s) (MetaNamespaceKey ing))"

text \<open>
  \<open>toIngress\<close> returns the Ingress pointer (\<open>None\<close> is nil) and whether the object was
  one. \<open>SetDefaultNGINXPathType\<close> writes through the pointer, so an object of the
  networking group is itself changed: the third component is the object afterwards.
  \<open>fromExtensions\<close> converts through a \<open>runtime.Scheme\<close> of the API machinery; the
  conversion is the parameter \<open>conv\<close> (\<open>None\<close> when it returns an error).
\<close>

definition toIngress ::
  "(Ingress \<Rightarrow> Ingress option) \<Rightarrow> Object \<Rightarrow> Ingress option \<times> bool \<times> Object" where
  "toIngress conv obj =
     (case obj of
        ExtensionsIngress oldVersion \<Rightarrow>
          (case conv oldVersion of
             None \<Rightarrow> (None, False, obj)
           | Some ing \<Rightarrow> (Some (SetDefaultNGINXPathType ing), True, obj))
      | NetworkingIngress ing \<Rightarrow>
          (Some (SetDefaultNGINXPathType ing), True,
           NetworkingIngress (SetDefaultNGINXPathType ing))
      | _ \<Rightarrow> (None, False, obj))"

text \<open>\<open>IsValid\<close> called on a pointer: a nil Ingress panics at \<open>ing.GetAnnotations()\<close>.\<close>

definition IsValidPtr :: "ClassConfig \<Rightarrow> Ingress option \<Rightarrow> panic + bool" where
  "IsValidPtr g p = (case p of None \<Rightarrow> Inl NilPointerDereference | Some ing \<Rightarrow> IsValid g ing)"

definition ingressMessage :: "Ingress \<Rightarrow> string" where
  "ingressMessage ing = ''Ingress '' @ Namespace ing @ ''/'' @ Name ing"

text \<open>unnamed/part\_004, \<open>IngressResourceEventHandler.OnAdd\<close>.\<close>

definition OnAdd ::
  "(Ingress \<Rightarrow> Ingress option) \<Rightarrow> ClassConfig \<Rightarrow> Object \<Rightarrow> K8sStore \<Rightarrow> panic + K8sStore" where
  "OnAdd conv g obj s =
     (case toIngress conv obj of (p, _, obj') \<Rightarrow>
        (case IsValidPtr g p of
           Inl e \<Rightarrow> Inl e
         | Inr valid \<Rightarrow>
             (case p of
                None \<Rightarrow> Inl NilPointerDereference
              | Some ing \<Rightarrow>
                  if \<not> valid then Inr s
                  else
                    let s1 = emit (Eventf ing ''Normal'' ''CREATE'' (ingressMessage ing)) s;
                        s2 = updateSecretIngressMap ing s1;
                        s3 = syncSecrets ing s2
                    in Inr (emit (Send \<lparr>Type = CreateEvent, Obj = obj'\<rparr>) s3))))"

text \<open>
  \<open>OnDelete\<close>. A tombstone's object is asserted to be a networking Ingress directly,
  without \<open>toIngress\<close>.
\<close>

definition OnDelete ::
  "(Ingress \<Rightarrow> Ingress option) \<Rightarrow> ClassConfig \<Rightarrow> Object \<Rightarrow> K8sStore \<Rightarrow> panic + K8sStore" where
  "OnDelete conv g obj s =
     (case toIngress conv obj of (p, ok, obj') \<Rightarrow>
        (case (if ok then p
               else (case obj of
                       DeletedFinalStateUnknown k (NetworkingIngress ing) \<Rightarrow> Some ing
                     | _ \<Rightarrow> None)) of
           None \<Rightarrow> Inr s
         | Some ing \<Rightarrow>
             (case IsValid g ing of
                Inl e \<Rightarrow> Inl e
              | Inr valid \<Rightarrow>
                  if \<not> valid then Inr s
                  else
                    let s1 = emit (Eventf ing ''Normal'' ''DELETE'' (ingressMessage ing)) s;
                        key = MetaNamespaceKey ing;
                        s2 = s1\<lparr>secretIngressMap := Delete key (secretIngressMap s1)\<rparr>
                    in Inr (emit (Send \<lparr>Type = DeleteEvent, Obj = obj'\<rparr>) s2))))"

text \<open>
  \<open>OnUpdate\<close>. The three branches that do not return share the tail: the index is
  recomputed, the secrets are synced, and an event of type \<open>UpdateEvent\<close> is sent.
\<close>

definition OnUpdate ::
  "(Ingress \<Rightarrow> Ingress option) \<Rightarrow> ClassConfig \<Rightarrow> Object \<Rightarrow> Object \<Rightarrow> K8sStore
     \<Rightarrow> panic + K8sStore" where
  "OnUpdate conv g old cur s =
     (case toIngress conv old of (oldIng, _, old') \<Rightarrow>
      case toIngress conv cur of (curIng, _, cur') \<Rightarrow>
        (case IsValidPtr g oldIng of
           Inl e \<Rightarrow> Inl e
         | Inr validOld \<Rightarrow>
        (case IsValidPtr g curIng of
           Inl e \<Rightarrow> Inl e
         | Inr validCur \<Rightarrow>
        (case curIng of
           None \<Rightarrow> Inl NilPointerDereference
         | Some ing \<Rightarrow>
             let rest = (\<lambda>s1.
                   let s2 = updateSecretIngressMap ing s1;
                       s3 = syncSecrets ing s2
                   in Inr (emit (Send \<lparr>Type = UpdateEvent, Obj = cur'\<rparr>) s3))
             in if \<not> validOld \<and> validCur
                then rest (emit (Eventf ing ''Normal'' ''CREATE'' (ingressMessage ing)) s)
                else if validOld \<and> \<not> validCur
                then OnDelete conv g old' s
                else if validCur \<and> old' \<noteq> cur'
                then rest (emit (Eventf ing ''Normal'' ''UPDATE'' (ingressMessage ing)) s)
                else Inr s))))"

text \<open>The types of the events sent on \<open>updateCh\<close>, in order.\<close>

fun sentTypes :: "Effect list \<Rightarrow> EventType list" where
  "sentTypes [] = []"
| "sentTypes (Send e # es) = Type e # sentTypes es"
| "sentTypes (_ # es) = sentTypes es"

text \<open>A concrete input: an Ingress that names TLS secrets.\<close>

definition tlsIngress :: "string list \<Rightarrow> Ingress" where
  "tlsIngress names =
     emptyIngress\<lparr>Spec := (Spec emptyIngress)
       \<lparr>TLS := map (\<lambda>n. \<lparr>Hosts = [], SecretName = n\<rparr>) names\<rparr>\<rparr>"

section \<open>The event queue (unnamed/part\_000)\<close>

type_synonym int64 = "64 word"

record 'k Element =
  Key :: 'k
  Timestamp :: int64
  IsSkippable :: bool

subsection \<open>The rate-limiting work queue of client-go\<close>

text \<open>
  \<open>workqueue.RateLimitingInterface\<close> belongs to client-go, not to this repository;
  this is its documented behaviour. \<open>items\<close> is the queue proper, in order; \<open>dirty\<close>
  holds what awaits processing, \<open>processing\<close> what was handed out by \<open>Get\<close> and not
  yet \<open>Done\<close>; \<open>delayed\<close> holds what \<open>AddRateLimited\<close> took, until its back-off has
  passed; \<open>failures\<close> is the rate limiter's count of requeues per item.
\<close>

record 'k workqueue =
  items :: "'k Element list"
  dirty :: "'k Element set"
  processing :: "'k Element set"
  delayed :: "'k Element list"
  failures :: "'k Element \<Rightarrow> nat"
  shuttingDown :: bool

definition NewRateLimitingQueue :: "'k workqueue" where
  "NewRateLimitingQueue =
     \<lparr>items = [], dirty = {}, processing = {}, delayed = [], failures = (\<lambda>_. 0),
      shuttingDown = False\<rparr>"

definition wq_Add :: "'k Element \<Rightarrow> 'k workqueue \<Rightarrow> 'k workqueue" where
  "wq_Add item q =
     (if shuttingDown q then q
      else if item \<in> dirty q then q
      else let q1 = q\<lparr>dirty := insert item (dirty q)\<rparr>
           in if item \<in> processing q1 then q1 else q1\<lparr>items := items q1 @ [item]\<rparr>)"

text \<open>
  \<open>Get\<close> blocks while the queue is empty and not shutting down (\<open>Pending\<close>), reports
  shutdown once it is empty and shutting down (\<open>Quit\<close>), and otherwise hands out the
  head.
\<close>

datatype 'k got = Item "'k Element" | Quit | Pending

definition wq_Get :: "'k workqueue \<Rightarrow> 'k got \<times> 'k workqueue" where
  "wq_Get q =
     (case items q of
        [] \<Rightarrow> (if shuttingDown q then (Quit, q) else (Pending, q))
      | item # rest \<Rightarrow>
          (Item item,
           q\<lparr>items := rest, processing := insert item (processing q),
             dirty := dirty q - {item}\<rparr>))"

definition wq_Done :: "'k Element \<Rightarrow> 'k workqueue \<Rightarrow> 'k workqueue" where
  "wq_Done item q =
     (let q1 = q\<lparr>processing := processing q - {item}\<rparr>
      in if item \<in> dirty q1 then q1\<lparr>items := items q1 @ [item]\<rparr> else q1)"

definition wq_Forget :: "'k Element \<Rightarrow> 'k workqueue \<Rightarrow> 'k workqueue" where
  "wq_Forget item q = q\<lparr>failures := (failures q)(item := 0)\<rparr>"

definition wq_AddRateLimited :: "'k Element \<Rightarrow> 'k workqueue \<Rightarrow> 'k workqueue" where
  "wq_AddRateLimited item q =
     (let q1 = q\<lparr>failures := (failures q)(item := Suc (failures q item))\<rparr>
      in if shuttingDown q1 then q1 else q1\<lparr>delayed := delayed q1 @ [item]\<rparr>)"

definition wq_ShutDown :: "'k workqueue \<Rightarrow> 'k workqueue" where
  "wq_ShutDown q = q\<lparr>shuttingDown := True\<rparr>"

subsection \<open>The queue and its worker\<close>

text \<open>
  \<open>workerDone\<close> is a channel on which nothing is ever sent: all that matters of it is
  whether it has been closed.
\<close>

datatype chan = Open | Closed

text \<open>
  The struct \<open>Queue\<close>. \<open>sync\<close> may read and write state of its owner (\<open>'u\<close>) and
  returns an error or nil; \<open>fn\<close> makes a key for an object or returns an error.
\<close>

record ('o, 'k, 'u) Queue =
  queue :: "'k workqueue"
  sync :: "'k Element \<Rightarrow> 'u \<Rightarrow> string option \<times> 'u"
  workerDone :: chan
  fn :: "'o \<Rightarrow> string + 'k"
  lastSync :: int64

text \<open>
  What the queue's code reads and writes outside the struct: the state of \<open>sync\<close>'s
  owner, the clock (\<open>ticks\<close> counts the readings of \<open>time.Now()\<close> so far; the
  parameter \<open>now\<close> gives the reading of each, in nanoseconds), and the record of the
  invocations of \<open>sync\<close>.
\<close>

record ('k, 'u) World =
  user :: 'u
  ticks :: nat
  calls :: "'k Element list"

definition NewCustomTaskQueue ::
  "('k Element \<Rightarrow> 'u \<Rightarrow> string option \<times> 'u) \<Rightarrow> ('o \<Rightarrow> string + 'k) \<Rightarrow> ('o, 'k, 'u) Queue" where
  "NewCustomTaskQueue syncFn keyFn =
     \<lparr>queue = NewRateLimitingQueue, sync = syncFn, workerDone = Open, fn = keyFn,
      lastSync = 0\<rparr>"

text \<open>
  \<open>defaultKeyFunc\<close>, which \<open>NewCustomTaskQueue\<close> installs for a nil \<open>fn\<close>:
  \<open>cache.DeletionHandlingMetaNamespaceKeyFunc\<close>, that is the key of a tombstone, and
  \<open>namespace/name\<close> (the name alone without a namespace) of any other object. Every
  object of the type \<open>Object\<close> carries metadata, so no error arises on it.
\<close>

fun defaultKeyFunc :: "Object \<Rightarrow> string + string" where
  "defaultKeyFunc (DeletedFinalStateUnknown k obj) = Inr k"
| "defaultKeyFunc (NetworkingIngress ing) = Inr (MetaNamespaceKey ing)"
| "defaultKeyFunc (ExtensionsIngress ing) = Inr (MetaNamespaceKey ing)"
| "defaultKeyFunc (SecretObject m) =
     Inr (if MetaNamespace m \<noteq> [] then MetaNamespace m @ ''/'' @ MetaName m else MetaName m)"
| "defaultKeyFunc (ServiceObject m) =
     Inr (if MetaNamespace m \<noteq> [] then MetaNamespace m @ ''/'' @ MetaName m else MetaName m)"
| "defaultKeyFunc (EndpointsObject m) =
     Inr (if MetaNamespace m \<noteq> [] then MetaNamespace m @ ''/'' @ MetaName m else MetaName m)"
| "defaultKeyFunc (ConfigMapObject m) =
     Inr (if MetaNamespace m \<noteq> [] then MetaNamespace m @ ''/'' @ MetaName m else MetaName m)"

definition NewTaskQueue ::
  "(string Element \<Rightarrow> 'u \<Rightarrow> string option \<times> 'u) \<Rightarrow> (Object, string, 'u) Queue" where
  "NewTaskQueue syncFn = NewCustomTaskQueue syncFn defaultKeyFunc"

text \<open>\<open>isClosed\<close>: the \<open>select\<close> returns true on a closed channel, and so does the fall-through.\<close>

definition isClosed :: "chan \<Rightarrow> bool" where
  "isClosed ch = (if ch = Closed then True else True)"

definition IsShuttingDown :: "('o, 'k, 'u) Queue \<Rightarrow> bool" where
  "IsShuttingDown t = shuttingDown (queue t)"

text \<open>
  One turn of the worker's loop after \<open>Get\<close> has handed out \<open>item\<close>: from
  \<open>ts := time.Now().UnixNano()\<close> to \<open>t.queue.Done(key)\<close>. Timestamps are compared as
  signed 64-bit integers.
\<close>

definition process ::
  "(nat \<Rightarrow> int64) \<Rightarrow> 'k Element \<Rightarrow> ('o, 'k, 'u) Queue \<times> ('k, 'u) World
     \<Rightarrow> ('o, 'k, 'u) Queue \<times> ('k, 'u) World" where
  "process now item tw =
     (case tw of (t, w) \<Rightarrow>
        let ts = now (ticks w);
            w1 = w\<lparr>ticks := Suc (ticks w)\<rparr>
        in if Timestamp item <s lastSync t
           then (t\<lparr>queue := wq_Done item (wq_Forget item (queue t))\<rparr>, w1)
           else
             (case sync t item (user w1) of (err, u') \<Rightarrow>
                let w2 = w1\<lparr>user := u', calls := calls w1 @ [item]\<rparr>
                in (case err of
                      Some e \<Rightarrow>
                        let again = \<lparr>Key = Key item, Timestamp = now (ticks w2),
                                     IsSkippable = False\<rparr>;
                            w3 = w2\<lparr>ticks := Suc (ticks w2)\<rparr>
                        in (t\<lparr>queue := wq_Done item (wq_AddRateLimited again (queue t))\<rparr>, w3)
                    | None \<Rightarrow>
                        (t\<lparr>queue := wq_Done item (wq_Forget item (queue t)),
                           lastSync := ts\<rparr>, w2))))"

text \<open>
  The worker: it runs until \<open>Get\<close> reports shutdown, and then returns, or until \<open>Get\<close>
  blocks on an empty queue. (\<open>Run\<close> starts it through \<open>wait.Until\<close>, which starts it
  again when it has returned, until the stop channel is closed.)
\<close>

datatype status = Blocked | Returned

function worker ::
  "(nat \<Rightarrow> int64) \<Rightarrow> ('o, 'k, 'u) Queue \<times> ('k, 'u) World
     \<Rightarrow> (('o, 'k, 'u) Queue \<times> ('k, 'u) World) \<times> status" where
  "worker now (t, w) =
     (case wq_Get (queue t) of
        (Pending, q1) \<Rightarrow> ((t, w), Blocked)
      | (Quit, q1) \<Rightarrow>
          ((if \<not> isClosed (workerDone t) then t\<lparr>workerDone := Closed\<rparr> else t, w), Returned)
      | (Item item, q1) \<Rightarrow> worker now (process now item (t\<lparr>queue := q1\<rparr>, w)))"
  by pat_completeness auto
termination
proof (relation "measure (\<lambda>(now, t, w). length (items (queue t)))")
  show "wf (measure (\<lambda>(now, t, w). length (items (queue t))))"
    by simp
next
  fix now :: "nat \<Rightarrow> int64"
    and t :: "('o, 'k, 'u) Queue"
    and w :: "('k, 'u) World"
    and g :: "'k got" and q1 item
  assume get: "(g, q1) = wq_Get (queue t)" and g: "g = Item item"
  from get g have q1: "Suc (length (items q1)) = length (items (queue t))"
    "item \<notin> dirty q1"
    by (auto simp: wq_Get_def split: list.splits if_splits)
  have "length (items (queue (fst (process now item (t\<lparr>queue := q1\<rparr>, w)))))
          = length (items q1)"
    using q1(2)
    by (simp add: process_def wq_Done_def wq_Forget_def wq_AddRateLimited_def
        Let_def split: prod.splits option.splits)
  with q1(1)
  show "((now, process now item (t\<lparr>queue := q1\<rparr>, w)), now, t, w)
          \<in> measure (\<lambda>(now, t, w). length (items (queue t)))"
    by (cases "process now item (t\<lparr>queue := q1\<rparr>, w)") simp
qed

declare worker.simps [simp del]

text \<open>
  \<open>enqueue\<close>, with \<open>EnqueueTask\<close> and \<open>EnqueueSkippableTask\<close>. 24 hours are
  86400000000000 nanoseconds. The element is built without \<open>IsSkippable\<close>.
\<close>

definition enqueue ::
  "(nat \<Rightarrow> int64) \<Rightarrow> 'o \<Rightarrow> bool \<Rightarrow> ('o, 'k, 'u) Queue \<times> ('k, 'u) World
     \<Rightarrow> ('o, 'k, 'u) Queue \<times> ('k, 'u) World" where
  "enqueue now obj skippable tw =
     (case tw of (t, w) \<Rightarrow>
        if IsShuttingDown t then (t, w)
        else
          let ts0 = now (ticks w);
              w1 = w\<lparr>ticks := Suc (ticks w)\<rparr>;
              ts = (if \<not> skippable then now (ticks w1) + 86400000000000 else ts0);
              w2 = (if \<not> skippable then w1\<lparr>ticks := Suc (ticks w1)\<rparr> else w1)
          in (case fn t obj of
                Inl err \<Rightarrow> (t, w2)
              | Inr key \<Rightarrow>
                  (t\<lparr>queue := wq_Add \<lparr>Key = key, Timestamp = ts, IsSkippable = False\<rparr>
                                (queue t)\<rparr>, w2)))"

definition EnqueueTask ::
  "(nat \<Rightarrow> int64) \<Rightarrow> 'o \<Rightarrow> ('o, 'k, 'u) Queue \<times> ('k, 'u) World
     \<Rightarrow> ('o, 'k, 'u) Queue \<times> ('k, 'u) World" where
  "EnqueueTask now obj tw = enqueue now obj False tw"

definition EnqueueSkippableTask ::
  "(nat \<Rightarrow> int64) \<Rightarrow> 'o \<Rightarrow> ('o, 'k, 'u) Queue \<times> ('k, 'u) World
     \<Rightarrow> ('o, 'k, 'u) Queue \<times> ('k, 'u) World" where
  "EnqueueSkippableTask now obj tw = enqueue now obj True tw"

text \<open>
  \<open>Shutdown\<close>: \<open>t.queue.ShutDown()\<close>, then the receive \<open><-t.workerDone\<close>. Between the
  two the worker goroutine runs on: it alone closes \<open>workerDone\<close>, and nothing is sent
  on the channel, so the receive completes if and only if the worker has left the
  channel closed. \<open>None\<close>: the receive never completes and \<open>Shutdown\<close> does not return.
\<close>

definition Shutdown ::
  "(nat \<Rightarrow> int64) \<Rightarrow> ('o, 'k, 'u) Queue \<times> ('k, 'u) World
     \<Rightarrow> (('o, 'k, 'u) Queue \<times> ('k, 'u) World) option" where
  "Shutdown now tw =
     (case tw of (t, w) \<Rightarrow>
        let t1 = t\<lparr>queue := wq_ShutDown (queue t)\<rparr>
        in (case worker now (t1, w) of
              (tw2, st) \<Rightarrow> if workerDone (fst tw2) = Closed then Some tw2 else None))"

text \<open>Concrete inputs for the queue: elements of one key, a clock, a queue and a world.\<close>

definition exElement :: "int64 \<Rightarrow> string Element" where
  "exElement ts = \<lparr>Key = ''default/web'', Timestamp = ts, IsSkippable = False\<rparr>"

definition exNow :: "nat \<Rightarrow> int64" where
  "exNow n = 200 + of_nat n"

definition exQueue :: "string Element list \<Rightarrow> (unit, string, nat) Queue" where
  "exQueue xs =
     (NewCustomTaskQueue (\<lambda>item n. (None, Suc n)) (\<lambda>obj. Inr ''default/web''))
       \<lparr>queue := NewRateLimitingQueue\<lparr>items := xs, dirty := set xs\<rparr>, lastSync := 100\<rparr>"

definition exWorld :: "(string, nat) World" where
  "exWorld = \<lparr>user = 0, ticks = 0, calls = []\<rparr>"

section \<open>The reconciler's shutdown (unnamed/part\_002, exec.go)\<close>

text \<open>
  \<open>bfe.Command\<close> holds a pointer to an \<open>exec.Cmd\<close>, which holds a pointer to the
  \<open>os.Process\<close> once started; of the process only the pid is kept.
\<close>

record Cmd =
  Process :: "nat option"

record Command =
  Binary :: string
  Cmd :: "Cmd option"

text \<open>
  What \<open>Stop\<close> does, in program order. \<open>Go\<close> is a \<open>go\<close> statement: it starts the
  goroutine and goes on without waiting for it.
\<close>

datatype goroutine = QueueShutdown

datatype StopEffect =
    SetShuttingDown
  | CloseStopCh
  | Go goroutine
  | Signal nat string
  | Wait nat

text \<open>
  The fields of \<open>BfeController\<close> that \<open>Stop\<close> reads and writes, and the trace of
  its effects. \<open>syncIngress\<close>, the queue's sync function, returns nil.
\<close>

record BfeController =
  syncQueue :: "(Object, string, unit) Queue"
  stopCh :: chan
  isShuttiingDown :: bool
  command :: Command
  effects :: "StopEffect list"

definition syncIngress :: "string Element \<Rightarrow> unit \<Rightarrow> string option \<times> unit" where
  "syncIngress item u = (None, u)"

definition did :: "StopEffect \<Rightarrow> BfeController \<Rightarrow> BfeController" where
  "did e b = b\<lparr>effects := effects b @ [e]\<rparr>"

text \<open>
  \<open>Stop\<close>. What \<open>Process.Signal\<close> returns is the parameter \<open>signalResult\<close>.
  Closing a closed channel panics, and so does the read of \<open>Cmd.Process\<close> through a
  nil \<open>Cmd\<close>; a \<open>Cmd\<close> that was never started has a nil \<open>Process\<close>, whose \<open>Signal\<close>
  reads its pid through the nil pointer.
\<close>

definition Stop ::
  "string option \<Rightarrow> BfeController \<Rightarrow> panic + (string option \<times> BfeController)" where
  "Stop signalResult b =
     (let b1 = did SetShuttingDown (b\<lparr>isShuttiingDown := True\<rparr>)
      in if IsShuttingDown (syncQueue b1)
         then Inr (Some ''shutdown already in progress'', b1)
         else if stopCh b1 = Closed then Inl CloseOfClosedChannel
         else
           let b2 = did CloseStopCh (b1\<lparr>stopCh := Closed\<rparr>);
               b3 = did (Go QueueShutdown) b2
           in (case Cmd (command b3) of
                 None \<Rightarrow> Inl NilPointerDereference
               | Some c \<Rightarrow>
                   (case Process c of
                      None \<Rightarrow> Inl NilPointerDereference
                    | Some pid \<Rightarrow>
                        let b4 = did (Signal pid ''SIGTERM'') b3
                        in (case signalResult of
                              Some err \<Rightarrow> Inr (Some err, b4)
                            | None \<Rightarrow> Inr (None, did (Wait pid) b4)))))"

text \<open>A controller as \<open>NewBfeController\<close> and \<open>Run\<close> leave it, the process started.\<close>

definition exController :: BfeController where
  "exController =
     \<lparr>syncQueue = NewTaskQueue syncIngress,
      stopCh = Open,
      isShuttiingDown = False,
      command = \<lparr>Binary = ''/usr/local/bin/bfe/bfe'', Cmd = Some \<lparr>Process = Some 42\<rparr>\<rparr>,
      effects = []\<rparr>"

section \<open>The certificate store (localcert.go)\<close>

subsection \<open>What the Go libraries provide\<close>

text \<open>
  Byte slices are strings. \<open>time.Time\<close> is an instant and a location; \<open>Time.Equal\<close>
  compares the instants only.
\<close>

record Time =
  instant :: int
  location :: string

definition TimeEqual :: "Time \<Rightarrow> Time \<Rightarrow> bool" where
  "TimeEqual a b = (instant a = instant b)"

record Extension =
  ExtId :: "nat list"
  ExtValue :: string

text \<open>The fields of \<open>x509.Certificate\<close> that \<open>CreateSSLCert\<close> reads.\<close>

record Certificate =
  SubjectCommonName :: string
  DNSNames :: "string list"
  Extensions :: "Extension list"
  Raw :: string
  NotAfter :: Time

record Block =
  BlockType :: string
  BlockBytes :: string

record RawValue =
  Class :: nat
  Tag :: nat
  IsCompound :: bool
  RawBytes :: string

text \<open>
  The library functions the file calls are parameters, collected in one record:
  \<open>pem.Decode\<close> (the block found, if any, and the rest), \<open>x509.ParseCertificate\<close>,
  \<open>tls.X509KeyPair\<close> (its error), SHA-1 with hex encoding, \<open>asn1.Unmarshal\<close>, and
  the four functions \<open>fullChainCert\<close> uses. An error is its message. A successful
  \<open>asn1.Unmarshal\<close> consumes the identifier octet of the value and what follows it:
  it gives the value and the number of octets consumed after the first, so the rest
  is shorter than the input.
\<close>

record Library =
  pemDecode :: "string \<Rightarrow> Block option \<times> string"
  ParseCertificate :: "string \<Rightarrow> string + Certificate"
  X509KeyPair :: "string \<Rightarrow> string \<Rightarrow> string option"
  sha1Hex :: "string \<Rightarrow> string"
  asn1Unmarshal :: "string \<Rightarrow> string + RawValue \<times> nat"
  DecodeCertificate :: "string \<Rightarrow> string + Certificate"
  Verify :: "Certificate \<Rightarrow> string option"
  FetchCertificateChain :: "Certificate \<Rightarrow> string + Certificate list"
  EncodeCertificates :: "Certificate list \<Rightarrow> string"

subsection \<open>\<open>SSLCert\<close> and its equality\<close>

record SSLCert =
  Name :: string
  Namespace :: string
  Certificate :: "Certificate option"
  CACertificate :: "Certificate list"
  CAFileName :: string
  CASHA :: string
  CRLFileName :: string
  CRLSHA :: string
  PemFileName :: string
  PemSHA :: string
  CN :: "string list"
  ExpireTime :: Time
  PemCertKey :: string
  UID :: string

text \<open>
  Modelled from the spec: \<open>StringElementsMatch\<close> is called by \<open>SSLCert.Equal\<close> but
  its file is not among the sources. The spec: the common names are a set,
  order-independent, and equality \<open>returns false whenever common-name sets differ
  regardless of element order\<close>.
\<close>

definition StringElementsMatch :: "string list \<Rightarrow> string list \<Rightarrow> bool" where
  "StringElementsMatch a b = (set a = set b)"

text \<open>
  \<open>Equal\<close> takes two pointers and first compares them as pointers. A pointer is an
  address or nil (\<open>None\<close>); \<open>h\<close> gives the record at each address.
\<close>

definition Equal :: "(nat \<Rightarrow> SSLCert) \<Rightarrow> nat option \<Rightarrow> nat option \<Rightarrow> bool" where
  "Equal h s s2 =
     (if s = s2 then True
      else (case (s, s2) of
              (Some p, Some p2) \<Rightarrow>
                if CASHA (h p) \<noteq> CASHA (h p2) then False
                else if PemSHA (h p) \<noteq> PemSHA (h p2) then False
                else if \<not> TimeEqual (ExpireTime (h p)) (ExpireTime (h p2)) then False
                else if PemCertKey (h p) \<noteq> PemCertKey (h p2) then False
                else if UID (h p) \<noteq> UID (h p2) then False
                else StringElementsMatch (CN (h p)) (CN (h p2))
            | _ \<Rightarrow> False))"

subsection \<open>\<open>CreateSSLCert\<close>\<close>

definition oidExtensionSubjectAltName :: "nat list" where
  "oidExtensionSubjectAltName = [2, 5, 29, 17]"

definition getExtension :: "Certificate \<Rightarrow> nat list \<Rightarrow> Extension list" where
  "getExtension c oid = filter (\<lambda>ext. ExtId ext = oid) (Extensions c)"

datatype SANError =
    Asn1Error string
  | TrailingData
  | BadSANSequence
  | BadIPLength nat

text \<open>
  The loop of \<open>parseSANExtension\<close> over the elements of the sequence. The results
  are named in the source: what was collected so far is returned with the error.
\<close>

function sanLoop ::
  "(string \<Rightarrow> string + RawValue \<times> nat) \<Rightarrow> string
     \<Rightarrow> string list \<times> string list \<times> string list
     \<Rightarrow> string list \<times> string list \<times> string list \<times> SANError option" where
  "sanLoop unmarshal rest (dnsNames, emailAddresses, ipAddresses) =
     (if rest = [] then (dnsNames, emailAddresses, ipAddresses, None)
      else (case unmarshal rest of
              Inl err \<Rightarrow> (dnsNames, emailAddresses, ipAddresses, Some (Asn1Error err))
            | Inr (v, n) \<Rightarrow>
                if Tag v = 1
                then sanLoop unmarshal (drop (Suc n) rest)
                       (dnsNames, emailAddresses @ [RawBytes v], ipAddresses)
                else if Tag v = 2
                then sanLoop unmarshal (drop (Suc n) rest)
                       (dnsNames @ [RawBytes v], emailAddresses, ipAddresses)
                else if Tag v = 7
                then (if length (RawBytes v) = 4 \<or> length (RawBytes v) = 16
                      then sanLoop unmarshal (drop (Suc n) rest)
                             (dnsNames, emailAddresses, ipAddresses @ [RawBytes v])
                      else (dnsNames, emailAddresses, ipAddresses,
                            Some (BadIPLength (length (RawBytes v)))))
                else sanLoop unmarshal (drop (Suc n) rest)
                       (dnsNames, emailAddresses, ipAddresses)))"
  by pat_completeness auto
termination
  by (relation "measure (\<lambda>(unmarshal, rest, acc). length rest)") auto

declare sanLoop.simps [simp del]

definition parseSANExtension ::
  "Library \<Rightarrow> string \<Rightarrow> string list \<times> string list \<times> string list \<times> SANError option" where
  "parseSANExtension lib val =
     (case asn1Unmarshal lib val of
        Inl err \<Rightarrow> ([], [], [], Some (Asn1Error err))
      | Inr (seq, n) \<Rightarrow>
          if drop (Suc n) val \<noteq> [] then ([], [], [], Some TrailingData)
          else if \<not> IsCompound seq \<or> Tag seq \<noteq> 16 \<or> Class seq \<noteq> 0
          then ([], [], [], Some BadSANSequence)
          else sanLoop (asn1Unmarshal lib) (RawBytes seq) ([], [], []))"

text \<open>\<open>fullChainCert\<close>; \<open>[]\<close> is the nil slice it returns for a chain that verifies.\<close>

definition fullChainCert :: "Library \<Rightarrow> string \<Rightarrow> string + string" where
  "fullChainCert lib inp =
     (case DecodeCertificate lib inp of
        Inl err \<Rightarrow> Inl err
      | Inr cert \<Rightarrow>
          (case Verify lib cert of
             None \<Rightarrow> Inr []
           | Some err \<Rightarrow>
               (case FetchCertificateChain lib cert of
                  Inl err' \<Rightarrow> Inl err'
                | Inr certs \<Rightarrow> Inr (EncodeCertificates lib certs))))"

datatype CertError =
    NoValidPEMBlock
  | NoCertificatePEMData
  | ParseCertificateError string
  | KeyPairError string

text \<open>
  The DNS names of the subject-alternative-name extensions; an extension that does not
  parse is skipped.
\<close>

definition sanDNSNames :: "Library \<Rightarrow> Certificate \<Rightarrow> string list" where
  "sanDNSNames lib pemCert =
     concat (map (\<lambda>ext. case parseSANExtension lib (ExtValue ext) of
                           (dns, emails, ips, None) \<Rightarrow> dns
                         | (dns, emails, ips, Some err) \<Rightarrow> [])
                 (getExtension pemCert oidExtensionSubjectAltName))"

text \<open>
  \<open>CreateSSLCert\<close>; \<open>enable\<close> is the package variable \<open>EnableSSLChainCompletion\<close>
  (false unless set). \<open>cn\<close> is a string set and \<open>cn.List()\<close> its sorted list.
\<close>

definition CreateSSLCert ::
  "Library \<Rightarrow> bool \<Rightarrow> string \<Rightarrow> string \<Rightarrow> string \<Rightarrow> CertError + SSLCert" where
  "CreateSSLCert lib enable cert key uid =
     (let chain = (if enable
                   then (case fullChainCert lib cert of Inl err \<Rightarrow> cert | Inr data \<Rightarrow> data)
                   else cert);
          pemCertBuffer = chain @ [CHR 0x0A] @ key
      in (case fst (pemDecode lib pemCertBuffer) of
            None \<Rightarrow> Inl NoValidPEMBlock
          | Some pemBlock \<Rightarrow>
              if BlockType pemBlock \<noteq> ''CERTIFICATE'' then Inl NoCertificatePEMData
              else (case ParseCertificate lib (BlockBytes pemBlock) of
                      Inl err \<Rightarrow> Inl (ParseCertificateError err)
                    | Inr pemCert \<Rightarrow>
                        (case X509KeyPair lib cert key of
                           Some err \<Rightarrow> Inl (KeyPairError err)
                         | None \<Rightarrow>
                             Inr \<lparr>Name = [], Namespace = [],
                                  Certificate = Some pemCert,
                                  CACertificate = [],
                                  CAFileName = [], CASHA = [],
                                  CRLFileName = [], CRLSHA = [],
                                  PemFileName = [],
                                  PemSHA = sha1Hex lib (Raw pemCert),
                                  CN = sort (remdups (SubjectCommonName pemCert
                                         # DNSNames pemCert @ sanDNSNames lib pemCert)),
                                  ExpireTime = NotAfter pemCert,
                                  PemCertKey = pemCertBuffer,
                                  UID = uid\<rparr>))))"

text \<open>Concrete inputs: a library that knows one certificate and one key, and records.\<close>

definition exCertificate :: Certificate where
  "exCertificate =
     \<lparr>SubjectCommonName = ''example.org'', DNSNames = [], Extensions = [], Raw = ''der'',
      NotAfter = \<lparr>instant = 1900000000, location = ''UTC''\<rparr>\<rparr>"

definition exLibrary :: Library where
  "exLibrary =
     \<lparr>pemDecode = (\<lambda>s. if take 4 s = ''CERT''
                         then (Some \<lparr>BlockType = ''CERTIFICATE'', BlockBytes = ''der''\<rparr>, drop 4 s)
                         else if take 3 s = ''KEY''
                         then (Some \<lparr>BlockType = ''PRIVATE KEY'', BlockBytes = ''k''\<rparr>, drop 3 s)
                         else (None, s)),
      ParseCertificate = (\<lambda>d. if d = ''der'' then Inr exCertificate
                               else Inl ''asn1: syntax error''),
      X509KeyPair = (\<lambda>c k. if c = ''CERT'' \<and> k = ''KEY'' then None
                            else Some ''tls: private key does not match public key''),
      sha1Hex = (\<lambda>d. ''da39a3ee''),
      asn1Unmarshal = (\<lambda>d. Inl ''asn1: syntax error''),
      DecodeCertificate = (\<lambda>d. Inl ''not a certificate''),
      Verify = (\<lambda>c. None),
      FetchCertificateChain = (\<lambda>c. Inr [c]),
      EncodeCertificates = (\<lambda>cs. [])\<rparr>"

definition exCert :: "string list \<Rightarrow> string \<Rightarrow> SSLCert" where
  "exCert names file =
     \<lparr>Name = ''tls'', Namespace = ''default'',
      Certificate = Some exCertificate, CACertificate = [],
      CAFileName = [], CASHA = ''0a'', CRLFileName = [], CRLSHA = [],
      PemFileName = file, PemSHA = ''da39a3ee'', CN = names,
      ExpireTime = \<lparr>instant = 1900000000, location = ''UTC''\<rparr>,
      PemCertKey = ''CERT'' @ [CHR 0x0A] @ ''KEY'', UID = ''uid-1''\<rparr>"

section \<open>Properties of the class filter\<close>

text \<open>
  C6. With the class annotation present, \<open>IsValid\<close> answers whether the annotation
  equals the configured class, or is empty while the configured class is the default
  class. Without the annotation, on a platform that is not class-resource capable, it
  answers whether the configured class is the default class. With the initial
  configuration (class and default class both "bfe"): no annotation is a member,
  annotation "other" is not, the empty annotation is.
\<close>

theorem IsValid_class_membership:
  "(\<forall>a. Annotations ing IngressKey = Some a \<longrightarrow>
      IsValid g ing =
        Inr (a = IngressClassName g \<or> (a = [] \<and> IngressClassName g = DefaultClassName g)))
   \<and> (Annotations ing IngressKey = None \<and> \<not> IsIngressV1Ready g \<longrightarrow>
        IsValid g ing = Inr (IngressClassName g = DefaultClassName g))
   \<and> IsValid initClassConfig emptyIngress = Inr True
   \<and> IsValid initClassConfig (withClass ''other'' emptyIngress) = Inr False
   \<and> IsValid initClassConfig (withClass [] emptyIngress) = Inr True"
  by (auto simp: IsValid_def initClassConfig_def emptyIngress_def withClass_def)

theorem IsValid_class_membership_witness:
  "IsValid (initClassConfig\<lparr>IngressClassName := ''edge''\<rparr>) (withClass ''edge'' emptyIngress)
     = Inr True
   \<and> IsValid (initClassConfig\<lparr>IngressClassName := ''edge''\<rparr>) (withClass [] emptyIngress)
     = Inr False
   \<and> IsValid (initClassConfig\<lparr>IngressClassName := ''edge''\<rparr>) emptyIngress = Inr False"
  using IsValid_class_membership
          [of "withClass ''edge'' emptyIngress" "initClassConfig\<lparr>IngressClassName := ''edge''\<rparr>"]
        IsValid_class_membership
          [of "withClass [] emptyIngress" "initClassConfig\<lparr>IngressClassName := ''edge''\<rparr>"]
        IsValid_class_membership
          [of emptyIngress "initClassConfig\<lparr>IngressClassName := ''edge''\<rparr>"]
  by (simp add: initClassConfig_def emptyIngress_def withClass_def)

text \<open>
  C10. \<open>IsValid\<close> is not total: with no class annotation, a nil
  \<open>Spec.IngressClassName\<close>, \<open>IsIngressV1Ready\<close> set and an \<open>IngressClass\<close>
  configured, the last branch dereferences the nil pointer.
\<close>

theorem IsValid_nil_class_name_panics:
  "IsValid (initClassConfig\<lparr>IsIngressV1Ready := True, IngressClass := Some ''bfe''\<rparr>)
     emptyIngress = Inl NilPointerDereference"
  by (simp add: IsValid_def initClassConfig_def emptyIngress_def)

section \<open>Properties of the route handler and the reference index\<close>

lemma IsValid_SetDefault: "IsValid g (SetDefaultNGINXPathType ing) = IsValid g ing"
  by (simp add: IsValid_def SetDefaultNGINXPathType_def split: option.splits)

lemma SetDefault_simps:
  "MetaNamespaceKey (SetDefaultNGINXPathType ing) = MetaNamespaceKey ing"
  "refSecrets (SetDefaultNGINXPathType ing) = refSecrets ing"
  "ingressMessage (SetDefaultNGINXPathType ing) = ingressMessage ing"
  by (simp_all add: MetaNamespaceKey_def refSecrets_def ingressMessage_def
      SetDefaultNGINXPathType_def)

lemma emit_simps:
  "secretIngressMap (emit e s) = secretIngressMap s"
  "trace (emit e s) = trace s @ [e]"
  by (simp_all add: emit_def)

lemma updateSecretIngressMap_simps:
  "secretIngressMap (updateSecretIngressMap ing s) =
     Insert (MetaNamespaceKey ing) (refSecrets ing)
       (Delete (MetaNamespaceKey ing) (secretIngressMap s))"
  "trace (updateSecretIngressMap ing s) = trace s"
  by (simp_all add: updateSecretIngressMap_def Let_def)

lemma foldl_syncSecret:
  "trace (foldl (\<lambda>s' k. syncSecret k s') s ks) = trace s @ map SyncSecret ks"
  "secretIngressMap (foldl (\<lambda>s' k. syncSecret k s') s ks) = secretIngressMap s"
  by (induction ks arbitrary: s) (simp_all add: syncSecret_def emit_def)

lemma foldl_syncSecret_eq:
  "foldl (\<lambda>s' k. syncSecret k s') s ks = s\<lparr>trace := trace s @ map SyncSecret ks\<rparr>"
  by (induction ks arbitrary: s) (simp_all add: syncSecret_def emit_def)

lemma syncSecrets_simps:
  "trace (syncSecrets ing s) =
     trace s @ map SyncSecret (ReferencedBy (secretIngressMap s) (MetaNamespaceKey ing))"
  "secretIngressMap (syncSecrets ing s) = secretIngressMap s"
  by (simp_all add: syncSecrets_def foldl_syncSecret)

lemma ReferencedBy_Insert: "ReferencedBy (Insert owner ts m) owner = remdups ts"
  by (simp add: ReferencedBy_def Insert_def Let_def)

lemma transposed_New: "transposed NewObjectRefMap"
  by (simp add: transposed_def NewObjectRefMap_def)

lemma transposed_Delete: "transposed m \<Longrightarrow> transposed (Delete owner m)"
  by (auto simp: transposed_def Delete_def)

lemma transposed_Insert: "transposed m \<Longrightarrow> transposed (Insert owner ts m)"
  by (auto simp: transposed_def Delete_def Insert_def Let_def)

lemma Reference_Delete: "owner \<notin> set (Reference (Delete owner m) t)"
  by (simp add: Reference_def Delete_def)

lemma Reference_Insert:
  "owner \<in> set (Reference (Insert owner ts m) t) \<longleftrightarrow> t \<in> set ts"
  by (simp add: Reference_def Insert_def Delete_def Let_def)

lemma toIngress_networking:
  "toIngress conv (NetworkingIngress ing) =
     (Some (SetDefaultNGINXPathType ing), True, NetworkingIngress (SetDefaultNGINXPathType ing))"
  by (simp add: toIngress_def)

lemma tlsIngress_valid:
  "IsValid initClassConfig (withClass ''other'' (tlsIngress ns)) = Inr False"
  "IsValid initClassConfig (withClass ''bfe'' (tlsIngress ns)) = Inr True"
  by (simp_all add: IsValid_def withClass_def initClassConfig_def)

lemma tlsIngress_key: "MetaNamespaceKey (withClass a (tlsIngress ns)) = ''default/web''"
  by (simp add: MetaNamespaceKey_def withClass_def tlsIngress_def emptyIngress_def)

lemma tlsIngress_refs:
  "refSecrets (withClass a (tlsIngress [''b'', ''c''])) = [''default/b'', ''default/c'']"
  "refSecrets (withClass a (tlsIngress [''tls''])) = [''default/tls'']"
  by (simp_all add: refSecrets_def withClass_def tlsIngress_def emptyIngress_def)

text \<open>
  C2. At the call site \<open>updateSecretIngressMap\<close> (Delete of the route's key, then
  Insert of the secrets its TLS blocks name): with \<open>O\<close> the route's key, \<open>S1\<close> its
  targets before and \<open>S2\<close> the targets declared now, afterwards \<open>Reference t\<close> holds
  \<open>O\<close> for every \<open>t\<close> of \<open>S2\<close> and for no \<open>t\<close> of \<open>S1 - S2\<close>; \<open>Delete O\<close> alone leaves
  \<open>O\<close> in no \<open>Reference t\<close>; and the inverse stays the transpose of the forward map,
  after the Delete and after the whole replacement.
\<close>

theorem updateSecretIngressMap_reference_index:
  assumes "transposed (secretIngressMap s)"
  shows "(\<forall>t \<in> set (ReferencedBy (secretIngressMap s) (MetaNamespaceKey ing))
               - set (refSecrets ing).
            MetaNamespaceKey ing
              \<notin> set (Reference (secretIngressMap (updateSecretIngressMap ing s)) t))
       \<and> (\<forall>t \<in> set (refSecrets ing).
            MetaNamespaceKey ing
              \<in> set (Reference (secretIngressMap (updateSecretIngressMap ing s)) t))
       \<and> (\<forall>t. MetaNamespaceKey ing
              \<notin> set (Reference (Delete (MetaNamespaceKey ing) (secretIngressMap s)) t))
       \<and> set (ReferencedBy (secretIngressMap (updateSecretIngressMap ing s))
                (MetaNamespaceKey ing)) = set (refSecrets ing)
       \<and> transposed (Delete (MetaNamespaceKey ing) (secretIngressMap s))
       \<and> transposed (secretIngressMap (updateSecretIngressMap ing s))"
proof -
  let ?O = "MetaNamespaceKey ing"
  have del: "transposed (Delete ?O (secretIngressMap s))"
    using assms by (rule transposed_Delete)
  then have ins: "transposed (secretIngressMap (updateSecretIngressMap ing s))"
    unfolding updateSecretIngressMap_simps by (rule transposed_Insert)
  show ?thesis
    using del ins
    by (simp add: updateSecretIngressMap_simps Reference_Insert Reference_Delete
        ReferencedBy_Insert)
qed

theorem updateSecretIngressMap_reference_index_witness:
  "''default/web'' \<in> set (Reference
       (Insert ''default/web'' [''default/a'', ''default/b''] NewObjectRefMap) ''default/a'')
   \<and> ''default/web'' \<notin> set (Reference (secretIngressMap
       (updateSecretIngressMap (withClass ''bfe'' (tlsIngress [''b'', ''c'']))
          (NewStore\<lparr>secretIngressMap :=
             Insert ''default/web'' [''default/a'', ''default/b''] NewObjectRefMap\<rparr>)))
       ''default/a'')
   \<and> ''default/web'' \<in> set (Reference (secretIngressMap
       (updateSecretIngressMap (withClass ''bfe'' (tlsIngress [''b'', ''c'']))
          (NewStore\<lparr>secretIngressMap :=
             Insert ''default/web'' [''default/a'', ''default/b''] NewObjectRefMap\<rparr>)))
       ''default/b'')
   \<and> ''default/web'' \<in> set (Reference (secretIngressMap
       (updateSecretIngressMap (withClass ''bfe'' (tlsIngress [''b'', ''c'']))
          (NewStore\<lparr>secretIngressMap :=
             Insert ''default/web'' [''default/a'', ''default/b''] NewObjectRefMap\<rparr>)))
       ''default/c'')
   \<and> transposed (secretIngressMap
       (updateSecretIngressMap (withClass ''bfe'' (tlsIngress [''b'', ''c'']))
          (NewStore\<lparr>secretIngressMap :=
             Insert ''default/web'' [''default/a'', ''default/b''] NewObjectRefMap\<rparr>)))"
proof -
  let ?m = "Insert ''default/web'' [''default/a'', ''default/b''] NewObjectRefMap"
  let ?s = "NewStore\<lparr>secretIngressMap := ?m\<rparr>"
  let ?ing = "withClass ''bfe'' (tlsIngress [''b'', ''c''])"
  have inv: "transposed (secretIngressMap ?s)"
    by (simp add: transposed_Insert transposed_New)
  have before: "set (ReferencedBy (secretIngressMap ?s) (MetaNamespaceKey ?ing))
                  - set (refSecrets ?ing) = {''default/a''}"
    by (simp add: tlsIngress_key tlsIngress_refs ReferencedBy_Insert insert_Diff_if)
  show ?thesis
    using updateSecretIngressMap_reference_index [OF inv, of ?ing]
    unfolding before
    by (simp add: tlsIngress_key tlsIngress_refs Reference_Insert)
qed

text \<open>
  C5, as the code has it. An update whose old object is not a class member and whose
  current object is one records a CREATE audit event on the current Ingress, replaces
  the Ingress's entry in the reference index by the secrets it declares, invokes
  \<open>syncSecret\<close> for each secret the index then holds for it, and sends one event on
  the update channel, whose type is \<open>UpdateEvent\<close> and whose object is the current one.
\<close>

theorem OnUpdate_becomes_member:
  assumes "toIngress conv old = (Some oldIng, okOld, old')"
      and "toIngress conv cur = (Some curIng, okCur, cur')"
      and "IsValid g oldIng = Inr False"
      and "IsValid g curIng = Inr True"
  shows "OnUpdate conv g old cur s =
           Inr (s\<lparr>secretIngressMap := secretIngressMap (updateSecretIngressMap curIng s),
                  trace := trace s
                    @ [Eventf curIng ''Normal'' ''CREATE'' (ingressMessage curIng)]
                    @ map SyncSecret
                        (ReferencedBy (secretIngressMap (updateSecretIngressMap curIng s))
                           (MetaNamespaceKey curIng))
                    @ [Send \<lparr>Type = UpdateEvent, Obj = cur'\<rparr>]\<rparr>)"
  using assms
  by (simp add: OnUpdate_def IsValidPtr_def Let_def emit_def updateSecretIngressMap_def
      syncSecrets_def foldl_syncSecret_eq)

theorem OnUpdate_becomes_member_witness:
  "OnUpdate Some initClassConfig
     (NetworkingIngress (withClass ''other'' (tlsIngress [''tls''])))
     (NetworkingIngress (withClass ''bfe'' (tlsIngress [''tls''])))
     NewStore =
   Inr (NewStore\<lparr>secretIngressMap :=
          Insert ''default/web'' [''default/tls''] (Delete ''default/web'' NewObjectRefMap),
        trace :=
          [Eventf (SetDefaultNGINXPathType (withClass ''bfe'' (tlsIngress [''tls''])))
             ''Normal'' ''CREATE'' ''Ingress default/web'',
           SyncSecret ''default/tls'',
           Send \<lparr>Type = UpdateEvent,
                 Obj = NetworkingIngress
                         (SetDefaultNGINXPathType (withClass ''bfe'' (tlsIngress [''tls''])))\<rparr>]\<rparr>)"
proof -
  let ?old = "withClass ''other'' (tlsIngress [''tls''])"
  let ?cur = "withClass ''bfe'' (tlsIngress [''tls''])"
  have v: "IsValid initClassConfig (SetDefaultNGINXPathType ?old) = Inr False"
          "IsValid initClassConfig (SetDefaultNGINXPathType ?cur) = Inr True"
    by (simp_all add: IsValid_SetDefault tlsIngress_valid)
  have k: "ingressMessage ?cur = ''Ingress default/web''"
    by (simp add: ingressMessage_def withClass_def tlsIngress_def emptyIngress_def)
  have n: "secretIngressMap NewStore = NewObjectRefMap" "trace NewStore = []"
    by (simp_all add: NewStore_def Let_def)
  show ?thesis
    using OnUpdate_becomes_member
            [where conv = Some and s = NewStore,
             OF toIngress_networking toIngress_networking v]
    by (simp add: k n SetDefault_simps tlsIngress_key tlsIngress_refs ReferencedBy_Insert
        updateSecretIngressMap_simps)
qed

text \<open>
  The same delivery against the claim as first stated: the handler sends no event of
  type \<open>CreateEvent\<close>. The one event it sends is of type \<open>UpdateEvent\<close>, whereas
  \<open>OnAdd\<close> of the same current object sends \<open>CreateEvent\<close>.
\<close>

theorem OnUpdate_becomes_member_sends_update:
  "IsValid initClassConfig (withClass ''other'' (tlsIngress [''tls''])) = Inr False
   \<and> IsValid initClassConfig (withClass ''bfe'' (tlsIngress [''tls''])) = Inr True
   \<and> map_sum id (\<lambda>s. sentTypes (trace s))
        (OnUpdate Some initClassConfig
           (NetworkingIngress (withClass ''other'' (tlsIngress [''tls''])))
           (NetworkingIngress (withClass ''bfe'' (tlsIngress [''tls''])))
           NewStore) = Inr [UpdateEvent]
   \<and> map_sum id (\<lambda>s. sentTypes (trace s))
        (OnAdd Some initClassConfig
           (NetworkingIngress (withClass ''bfe'' (tlsIngress [''tls''])))
           NewStore) = Inr [CreateEvent]"
proof -
  have n: "secretIngressMap NewStore = NewObjectRefMap" "trace NewStore = []"
    by (simp_all add: NewStore_def Let_def)
  show ?thesis
    by (simp add: OnUpdate_def OnAdd_def toIngress_def IsValidPtr_def IsValid_SetDefault
        tlsIngress_valid Let_def emit_simps updateSecretIngressMap_simps syncSecrets_simps
        n ReferencedBy_Insert SetDefault_simps tlsIngress_refs)
qed

section \<open>Properties of the listers\<close>

text \<open>
  C4. The Service lister does not read the Service collection: \<open>NewStore\<close> gives it the
  store of an informer on Secrets. In a cluster holding the Service \<open>default/web\<close> and
  the Secret \<open>default/tls\<close>, \<open>GetService\<close> answers not-found for the Service's key, and
  for the Secret's key, which its store does hold, the type assertion panics.
\<close>

theorem GetService_reads_secrets:
  "exampleApi CoreV1Services ''default/web''
     = Some (ServiceObject \<lparr>MetaName = ''web'', MetaNamespace = ''default''\<rparr>)
   \<and> GetService exampleApi NewStore ''default/web''
     = Inr (Inl (NotFound ''core.service'' ''default/web''))
   \<and> GetByKey exampleApi (ServiceLister (listers NewStore)) ''default/tls''
     = Some (SecretObject \<lparr>MetaName = ''tls'', MetaNamespace = ''default''\<rparr>)
   \<and> GetService exampleApi NewStore ''default/tls'' = Inl TypeAssertionFailed
   \<and> ServiceLister (listers NewStore) = SecretLister (listers NewStore)"
  by (simp add: GetService_def ServiceLister_ByKey_def NewStore_def exampleApi_def Let_def)

section \<open>Properties of the event queue\<close>

lemma process_workerDone: "workerDone (fst (process now item (t, w))) = workerDone t"
  by (simp add: process_def Let_def split: prod.splits option.splits)

lemma worker_workerDone: "workerDone (fst (fst (worker now (t, w)))) = workerDone t"
proof (induction now "(t, w)" arbitrary: t w rule: worker.induct)
  case (1 now t w)
  show ?case
  proof (cases "wq_Get (queue t)")
    case (Pair g q1)
    show ?thesis
    proof (cases g)
      case (Item item)
      obtain t' w' where p: "process now item (t\<lparr>queue := q1\<rparr>, w) = (t', w')"
        by (cases "process now item (t\<lparr>queue := q1\<rparr>, w)")
      have "workerDone t' = workerDone t"
        using process_workerDone [of now item "t\<lparr>queue := q1\<rparr>" w] p by simp
      moreover have "workerDone (fst (fst (worker now (t', w')))) = workerDone t'"
        using "1.hyps" [OF Pair [symmetric] Item p] .
      ultimately show ?thesis
        using Pair Item p by (simp add: worker.simps)
    next
      case Quit
      then show ?thesis using Pair by (simp add: worker.simps isClosed_def)
    next
      case Pending
      then show ?thesis using Pair by (simp add: worker.simps)
    qed
  qed
qed

lemma Shutdown_blocks: "workerDone t = Open \<Longrightarrow> Shutdown now (t, w) = None"
  using worker_workerDone [of now "t\<lparr>queue := wq_ShutDown (queue t)\<rparr>" w]
  by (auto simp add: Shutdown_def Let_def split: prod.splits)

lemma exQueue_Get:
  "wq_Get (queue (exQueue (x # xs))) =
     (Item x, NewRateLimitingQueue\<lparr>items := xs, dirty := set (x # xs) - {x},
                processing := {x}\<rparr>)"
  by (simp add: wq_Get_def exQueue_def NewCustomTaskQueue_def NewRateLimitingQueue_def)

text \<open>
  C1. For a dequeue by the worker (\<open>Get\<close> hands out \<open>item\<close>, leaving \<open>q1\<close>), the
  worker goes on from the state \<open>process\<close> yields, and in that turn: \<open>sync\<close> is not
  invoked if and only if the item's timestamp is below \<open>lastSync\<close> (signed
  comparison), and then the item is forgotten and done with nothing else changed but
  the clock reading; otherwise \<open>sync\<close> is invoked exactly once, on that item; if it
  returns nil, \<open>lastSync\<close> becomes the time read at the dequeue and the item is
  forgotten; if it returns an error, \<open>lastSync\<close> stays and the key is requeued, rate
  limited, with a fresh timestamp.
\<close>

theorem worker_dequeue_skip_policy:
  assumes "wq_Get (queue t) = (Item item, q1)"
  shows "worker now (t, w) = worker now (process now item (t\<lparr>queue := q1\<rparr>, w))
     \<and> (calls (snd (process now item (t\<lparr>queue := q1\<rparr>, w))) = calls w
          \<longleftrightarrow> Timestamp item <s lastSync t)
     \<and> (Timestamp item <s lastSync t \<longrightarrow>
          process now item (t\<lparr>queue := q1\<rparr>, w) =
            (t\<lparr>queue := wq_Done item (wq_Forget item q1)\<rparr>, w\<lparr>ticks := Suc (ticks w)\<rparr>))
     \<and> (\<not> Timestamp item <s lastSync t \<longrightarrow>
          calls (snd (process now item (t\<lparr>queue := q1\<rparr>, w))) = calls w @ [item]
          \<and> user (snd (process now item (t\<lparr>queue := q1\<rparr>, w))) = snd (sync t item (user w))
          \<and> (fst (sync t item (user w)) = None \<longrightarrow>
                lastSync (fst (process now item (t\<lparr>queue := q1\<rparr>, w))) = now (ticks w)
                \<and> queue (fst (process now item (t\<lparr>queue := q1\<rparr>, w)))
                    = wq_Done item (wq_Forget item q1))
          \<and> (fst (sync t item (user w)) \<noteq> None \<longrightarrow>
                lastSync (fst (process now item (t\<lparr>queue := q1\<rparr>, w))) = lastSync t
                \<and> queue (fst (process now item (t\<lparr>queue := q1\<rparr>, w)))
                    = wq_Done item (wq_AddRateLimited
                        \<lparr>Key = Key item, Timestamp = now (Suc (ticks w)), IsSkippable = False\<rparr>
                        q1)))"
proof -
  have step: "worker now (t, w) = worker now (process now item (t\<lparr>queue := q1\<rparr>, w))"
    using assms by (simp add: worker.simps)
  have rest: "(calls (snd (process now item (t\<lparr>queue := q1\<rparr>, w))) = calls w
          \<longleftrightarrow> Timestamp item <s lastSync t)
     \<and> (Timestamp item <s lastSync t \<longrightarrow>
          process now item (t\<lparr>queue := q1\<rparr>, w) =
            (t\<lparr>queue := wq_Done item (wq_Forget item q1)\<rparr>, w\<lparr>ticks := Suc (ticks w)\<rparr>))
     \<and> (\<not> Timestamp item <s lastSync t \<longrightarrow>
          calls (snd (process now item (t\<lparr>queue := q1\<rparr>, w))) = calls w @ [item]
          \<and> user (snd (process now item (t\<lparr>queue := q1\<rparr>, w))) = snd (sync t item (user w))
          \<and> (fst (sync t item (user w)) = None \<longrightarrow>
                lastSync (fst (process now item (t\<lparr>queue := q1\<rparr>, w))) = now (ticks w)
                \<and> queue (fst (process now item (t\<lparr>queue := q1\<rparr>, w)))
                    = wq_Done item (wq_Forget item q1))
          \<and> (fst (sync t item (user w)) \<noteq> None \<longrightarrow>
                lastSync (fst (process now item (t\<lparr>queue := q1\<rparr>, w))) = lastSync t
                \<and> queue (fst (process now item (t\<lparr>queue := q1\<rparr>, w)))
                    = wq_Done item (wq_AddRateLimited
                        \<lparr>Key = Key item, Timestamp = now (Suc (ticks w)), IsSkippable = False\<rparr>
                        q1)))"
    by (auto simp: process_def Let_def split: prod.splits option.splits)
  from step rest show ?thesis by blast
qed

theorem worker_dequeue_skip_policy_witness:
  "calls (snd (process exNow (exElement 50)
      ((exQueue [exElement 50])\<lparr>queue := snd (wq_Get (queue (exQueue [exElement 50])))\<rparr>,
       exWorld))) = []
   \<and> lastSync (fst (process exNow (exElement 50)
      ((exQueue [exElement 50])\<lparr>queue := snd (wq_Get (queue (exQueue [exElement 50])))\<rparr>,
       exWorld))) = 100
   \<and> calls (snd (process exNow (exElement 100)
      ((exQueue [exElement 100])\<lparr>queue := snd (wq_Get (queue (exQueue [exElement 100])))\<rparr>,
       exWorld))) = [exElement 100]
   \<and> lastSync (fst (process exNow (exElement 100)
      ((exQueue [exElement 100])\<lparr>queue := snd (wq_Get (queue (exQueue [exElement 100])))\<rparr>,
       exWorld))) = 200"
proof -
  have l: "lastSync (exQueue xs) = 100" "sync (exQueue xs) = (\<lambda>item n. (None, Suc n))" for xs
    by (simp_all add: exQueue_def NewCustomTaskQueue_def)
  have c: "Timestamp (exElement 50) <s (100 :: int64)"
          "\<not> Timestamp (exElement 100) <s (100 :: int64)"
    by (simp_all add: exElement_def)
  show ?thesis
    using worker_dequeue_skip_policy
            [OF exQueue_Get [of "exElement 50" "[]"], where now = exNow and w = exWorld]
          worker_dequeue_skip_policy
            [OF exQueue_Get [of "exElement 100" "[]"], where now = exNow and w = exWorld]
    by (simp add: exQueue_Get l c exWorld_def exNow_def)
qed

text \<open>
  C3. \<open>Shutdown\<close> does not return. On a queue as \<open>NewCustomTaskQueue\<close> makes it, once
  \<open>ShutDown\<close> is called the worker finds the queue shut down and returns, but since
  \<open>isClosed\<close> answers true for the open channel it returns without closing
  \<open>workerDone\<close>: the channel is still open, and the receive in \<open>Shutdown\<close> never
  completes. New work is refused from then on, as the claim says.
\<close>

theorem Shutdown_never_returns:
  "isClosed Open
   \<and> worker now ((NewCustomTaskQueue syncFn keyFn)\<lparr>queue := wq_ShutDown NewRateLimitingQueue\<rparr>, w)
       = (((NewCustomTaskQueue syncFn keyFn)\<lparr>queue := wq_ShutDown NewRateLimitingQueue\<rparr>, w),
          Returned)
   \<and> workerDone ((NewCustomTaskQueue syncFn keyFn)\<lparr>queue := wq_ShutDown NewRateLimitingQueue\<rparr>)
       = Open
   \<and> Shutdown now (NewCustomTaskQueue syncFn keyFn, w) = None
   \<and> enqueue now obj skippable
        ((NewCustomTaskQueue syncFn keyFn)\<lparr>queue := wq_ShutDown NewRateLimitingQueue\<rparr>, w)
       = ((NewCustomTaskQueue syncFn keyFn)\<lparr>queue := wq_ShutDown NewRateLimitingQueue\<rparr>, w)"
proof -
  have "workerDone (NewCustomTaskQueue syncFn keyFn) = Open"
    by (simp add: NewCustomTaskQueue_def)
  then have "Shutdown now (NewCustomTaskQueue syncFn keyFn, w) = None"
    by (rule Shutdown_blocks)
  then show ?thesis
    by (simp add: worker.simps wq_Get_def wq_ShutDown_def NewRateLimitingQueue_def
        NewCustomTaskQueue_def isClosed_def enqueue_def IsShuttingDown_def)
qed

section \<open>Properties of the reconciler's shutdown\<close>

text \<open>
  C9, as the code has it. When \<open>Stop\<close> is called on a controller whose queue is not
  shutting down, whose stop channel is open and whose process was started, its effects
  are, in this order: the shutting-down flag is set; the stop channel is closed; the
  queue's \<open>Shutdown\<close> is started in a goroutine of its own, which \<open>Stop\<close> does not
  wait for; the termination signal is sent to the process; if sending failed the
  failure is returned, and otherwise the process's exit is awaited and nil returned.
  \<open>Stop\<close> itself leaves the queue as it found it.
\<close>

theorem Stop_order:
  assumes "\<not> IsShuttingDown (syncQueue b)"
      and "stopCh b = Open"
      and "Cmd (command b) = Some c"
      and "Process c = Some pid"
  shows "Stop signalResult b =
           Inr (signalResult,
                b\<lparr>stopCh := Closed, isShuttiingDown := True,
                  effects := effects b
                    @ [SetShuttingDown, CloseStopCh, Go QueueShutdown, Signal pid ''SIGTERM'']
                    @ (if signalResult = None then [Wait pid] else [])\<rparr>)"
  using assms
  by (cases signalResult) (simp_all add: Stop_def did_def Let_def)

theorem Stop_order_witness:
  "Stop None exController =
     Inr (None, exController\<lparr>stopCh := Closed, isShuttiingDown := True,
            effects := [SetShuttingDown, CloseStopCh, Go QueueShutdown,
                        Signal 42 ''SIGTERM'', Wait 42]\<rparr>)
   \<and> Stop (Some ''os: process already finished'') exController =
     Inr (Some ''os: process already finished'',
          exController\<lparr>stopCh := Closed, isShuttiingDown := True,
            effects := [SetShuttingDown, CloseStopCh, Go QueueShutdown,
                        Signal 42 ''SIGTERM'']\<rparr>)"
proof -
  have h: "\<not> IsShuttingDown (syncQueue exController)" "stopCh exController = Open"
          "Cmd (command exController) = Some \<lparr>Process = Some 42\<rparr>"
          "Process \<lparr>Process = Some 42\<rparr> = Some 42"
    by (simp_all add: exController_def IsShuttingDown_def NewTaskQueue_def
        NewCustomTaskQueue_def NewRateLimitingQueue_def)
  have e: "effects exController = []"
    by (simp add: exController_def)
  show ?thesis
    using Stop_order [OF h, of None] Stop_order [OF h, of "Some ''os: process already finished''"]
    by (simp add: e)
qed

text \<open>
  The same call against the claim as first stated: all that \<open>Stop\<close> does about the
  queue before it sends the signal is the \<open>go\<close> statement. In the state that
  \<open>Stop\<close>'s own statements leave when it has awaited the process and returned, the
  queue is not shut down and its \<open>workerDone\<close> is open: shutting the queue down is
  left to the goroutine, and nothing waits for it.
\<close>

theorem Stop_does_not_join_queue:
  "map_sum id (\<lambda>r. (fst r, effects (snd r), IsShuttingDown (syncQueue (snd r)),
                     workerDone (syncQueue (snd r))))
     (Stop None exController)
   = Inr (None,
          [SetShuttingDown, CloseStopCh, Go QueueShutdown, Signal 42 ''SIGTERM'', Wait 42],
          False, Open)"
  by (simp add: Stop_def did_def Let_def exController_def IsShuttingDown_def NewTaskQueue_def
      NewCustomTaskQueue_def NewRateLimitingQueue_def)

section \<open>Properties of the certificate store\<close>

text \<open>
  C7. With chain completion disabled, \<open>CreateSSLCert\<close> returns an error, and so no
  record, if and only if \<open>pem.Decode\<close> finds no block in the certificate followed by
  a newline and the key, or the block it finds is not of type CERTIFICATE, or the
  block's bytes do not parse as a certificate, or \<open>tls.X509KeyPair\<close> rejects the
  certificate and key. The function takes and returns no store: a record stored
  before is out of its reach.
\<close>

theorem CreateSSLCert_error_iff:
  "isl (CreateSSLCert lib False cert key uid) \<longleftrightarrow>
     (fst (pemDecode lib (cert @ [CHR 0x0A] @ key)) = None
      \<or> (\<exists>b. fst (pemDecode lib (cert @ [CHR 0x0A] @ key)) = Some b
             \<and> BlockType b \<noteq> ''CERTIFICATE'')
      \<or> (\<exists>b. fst (pemDecode lib (cert @ [CHR 0x0A] @ key)) = Some b
             \<and> isl (ParseCertificate lib (BlockBytes b)))
      \<or> X509KeyPair lib cert key \<noteq> None)"
  by (auto simp: CreateSSLCert_def Let_def split: option.splits sum.splits)

theorem CreateSSLCert_error_iff_witness:
  "isl (CreateSSLCert exLibrary False ''junk'' ''KEY'' ''uid-1'')
   \<and> isl (CreateSSLCert exLibrary False ''KEY'' ''KEY'' ''uid-1'')
   \<and> isl (CreateSSLCert exLibrary False ''CERT'' ''junk'' ''uid-1'')
   \<and> \<not> isl (CreateSSLCert exLibrary False ''CERT'' ''KEY'' ''uid-1'')"
  using CreateSSLCert_error_iff [of exLibrary "''junk''" "''KEY''" "''uid-1''"]
        CreateSSLCert_error_iff [of exLibrary "''KEY''" "''KEY''" "''uid-1''"]
        CreateSSLCert_error_iff [of exLibrary "''CERT''" "''junk''" "''uid-1''"]
        CreateSSLCert_error_iff [of exLibrary "''CERT''" "''KEY''" "''uid-1''"]
  by (simp add: exLibrary_def)

text \<open>
  C8, as the code has it. \<open>Equal\<close> is reflexive and symmetric; it is false for two
  records whose common-name sets differ, whatever the order of the names; and it is
  true for two records with the same UID, the same PEM certificate and key, the same
  CA hash, the same certificate hash, the same expiry instant and the same set of
  common names, whatever their other fields hold.
\<close>

theorem Equal_properties:
  "Equal h s s
   \<and> Equal h s s2 = Equal h s2 s
   \<and> (set (CN (h p)) \<noteq> set (CN (h p2)) \<longrightarrow> \<not> Equal h (Some p) (Some p2))
   \<and> (UID (h p) = UID (h p2) \<and> PemCertKey (h p) = PemCertKey (h p2)
        \<and> CASHA (h p) = CASHA (h p2) \<and> PemSHA (h p) = PemSHA (h p2)
        \<and> instant (ExpireTime (h p)) = instant (ExpireTime (h p2))
        \<and> set (CN (h p)) = set (CN (h p2))
      \<longrightarrow> Equal h (Some p) (Some p2))"
proof -
  have refl: "Equal h s s"
    by (simp add: Equal_def)
  have sym: "Equal h s s2 = Equal h s2 s"
    by (cases s; cases s2)
       (auto simp: Equal_def StringElementsMatch_def TimeEqual_def)
  have cn: "set (CN (h p)) \<noteq> set (CN (h p2)) \<longrightarrow> \<not> Equal h (Some p) (Some p2)"
    by (auto simp: Equal_def StringElementsMatch_def)
  have same: "UID (h p) = UID (h p2) \<and> PemCertKey (h p) = PemCertKey (h p2)
        \<and> CASHA (h p) = CASHA (h p2) \<and> PemSHA (h p) = PemSHA (h p2)
        \<and> instant (ExpireTime (h p)) = instant (ExpireTime (h p2))
        \<and> set (CN (h p)) = set (CN (h p2))
      \<longrightarrow> Equal h (Some p) (Some p2)"
    by (simp add: Equal_def StringElementsMatch_def TimeEqual_def)
  from refl sym cn same show ?thesis by blast
qed

theorem Equal_properties_witness:
  "Equal ((\<lambda>a. exCert [''a.org'', ''b.org''] ''/etc/ingress-controller/ssl/x.pem'')
            (1 := exCert [''b.org'', ''a.org''] ''/etc/ingress-controller/ssl/y.pem''))
         (Some 0) (Some 1)
   \<and> \<not> Equal ((\<lambda>a. exCert [''a.org'', ''b.org''] ''/etc/ingress-controller/ssl/x.pem'')
            (1 := exCert [''a.org''] ''/etc/ingress-controller/ssl/x.pem''))
         (Some 0) (Some 1)"
  using Equal_properties
          [of "(\<lambda>a. exCert [''a.org'', ''b.org''] ''/etc/ingress-controller/ssl/x.pem'')
                 (1 := exCert [''b.org'', ''a.org''] ''/etc/ingress-controller/ssl/y.pem'')"
              _ _ 0 1]
        Equal_properties
          [of "(\<lambda>a. exCert [''a.org'', ''b.org''] ''/etc/ingress-controller/ssl/x.pem'')
                 (1 := exCert [''a.org''] ''/etc/ingress-controller/ssl/x.pem'')"
              _ _ 0 1]
  by (simp add: exCert_def insert_commute)

text \<open>
  The claim as first stated asks \<open>Equal\<close> to be true whenever identity, chain hash,
  certificate hash and expiry agree. Two records that agree on every field but the
  common names are not equal, and neither are two that agree on every field but the
  PEM certificate and key.
\<close>

theorem Equal_same_identity_not_equal:
  "Name (exCert [''a.org''] ''x.pem'') = Name (exCert [''b.org''] ''x.pem'')
   \<and> Namespace (exCert [''a.org''] ''x.pem'') = Namespace (exCert [''b.org''] ''x.pem'')
   \<and> UID (exCert [''a.org''] ''x.pem'') = UID (exCert [''b.org''] ''x.pem'')
   \<and> PemFileName (exCert [''a.org''] ''x.pem'') = PemFileName (exCert [''b.org''] ''x.pem'')
   \<and> PemCertKey (exCert [''a.org''] ''x.pem'') = PemCertKey (exCert [''b.org''] ''x.pem'')
   \<and> CASHA (exCert [''a.org''] ''x.pem'') = CASHA (exCert [''b.org''] ''x.pem'')
   \<and> PemSHA (exCert [''a.org''] ''x.pem'') = PemSHA (exCert [''b.org''] ''x.pem'')
   \<and> ExpireTime (exCert [''a.org''] ''x.pem'') = ExpireTime (exCert [''b.org''] ''x.pem'')
   \<and> \<not> Equal ((\<lambda>a. exCert [''a.org''] ''x.pem'') (1 := exCert [''b.org''] ''x.pem''))
            (Some 0) (Some 1)
   \<and> \<not> Equal ((\<lambda>a. exCert [''a.org''] ''x.pem'')
               (1 := (exCert [''a.org''] ''x.pem'')\<lparr>PemCertKey := ''CERT2''\<rparr>))
            (Some 0) (Some 1)"
  by (simp add: exCert_def Equal_def StringElementsMatch_def TimeEqual_def)

end
